theory Spec2Isabelle
  imports Complex_Main "HOL-Library.AList"
begin

section \<open>Security module (core/security.py)\<close>

subsection \<open>Security events\<close>

text \<open>
  \<open>log_security_event\<close> builds a dictionary with the event type, the details, the client
  address and a severity, and writes it to the logger and to a log file. The model keeps the
  written events in a list that is part of the state; the wall-clock timestamp of the entry
  is left out.
\<close>

datatype severity = HIGH | MEDIUM

record security_event =
  ev_type :: string
  ev_details :: string
  ev_client_ip :: string
  ev_severity :: severity

definition mk_security_event :: "string \<Rightarrow> string \<Rightarrow> string \<Rightarrow> security_event" where
  "mk_security_event event_type details client_ip =
     \<lparr> ev_type = event_type, ev_details = details, ev_client_ip = client_ip,
       ev_severity = (if event_type \<in> set [''MALICIOUS_REQUEST'', ''IP_BLOCKED'']
                      then HIGH else MEDIUM) \<rparr>"

subsection \<open>Rate limiter state\<close>

text \<open>
  The two module-level dictionaries \<open>rate_limit_storage\<close> and \<open>blocked_ips_cache\<close>, and
  the security log. Instants returned by \<open>time.time()\<close> are modelled as real numbers of
  seconds; the current time is an argument of every function that reads the clock.
\<close>

record sec_state =
  rate_limit_storage :: "string \<rightharpoonup> real list"
  blocked_ips_cache :: "string \<rightharpoonup> real"
  security_log :: "security_event list"

definition log_security_event :: "string \<Rightarrow> string \<Rightarrow> string \<Rightarrow> sec_state \<Rightarrow> sec_state" where
  "log_security_event event_type details client_ip s =
     s\<lparr> security_log := security_log s @ [mk_security_event event_type details client_ip] \<rparr>"

text \<open>
  \<open>check_rate_limit\<close>, with the threshold \<open>rate_limit_requests\<close> and the window
  \<open>rate_limit_window\<close> of the configuration as the arguments \<open>limit\<close> and \<open>window\<close>.
  The branches follow the source: a block that lies in the future rejects at once; an
  expired block is deleted; the entry of the client is pruned to the timestamps after
  \<open>window_start\<close> (or created empty); a full entry sets a block of 300 seconds, logs and
  rejects; otherwise the current time is appended and the request is accepted.
\<close>

definition check_rate_limit :: "int \<Rightarrow> int \<Rightarrow> real \<Rightarrow> string \<Rightarrow> sec_state \<Rightarrow> bool \<times> sec_state" where
  "check_rate_limit limit window current_time client_ip s =
     (let window_start = current_time - real_of_int window in
      if (case blocked_ips_cache s client_ip of
            Some until \<Rightarrow> current_time < until | None \<Rightarrow> False)
      then (False, s)
      else
        let s1 = s\<lparr> blocked_ips_cache := (blocked_ips_cache s)(client_ip := None) \<rparr>;
            kept = (case rate_limit_storage s1 client_ip of
                      Some stamps \<Rightarrow> filter (\<lambda>timestamp. timestamp > window_start) stamps
                    | None \<Rightarrow> []);
            s2 = s1\<lparr> rate_limit_storage := (rate_limit_storage s1)(client_ip \<mapsto> kept) \<rparr>
        in if int (length kept) \<ge> limit
           then (False,
                 log_security_event ''RATE_LIMIT_EXCEEDED'' ''IP blocked for 5 minutes'' client_ip
                   (s2\<lparr> blocked_ips_cache := (blocked_ips_cache s2)(client_ip \<mapsto> current_time + 300) \<rparr>))
           else (True,
                 s2\<lparr> rate_limit_storage := (rate_limit_storage s2)(client_ip \<mapsto> kept @ [current_time]) \<rparr>))"


definition fresh_state :: sec_state where
  "fresh_state = \<lparr> rate_limit_storage = Map.empty, blocked_ips_cache = Map.empty, security_log = [] \<rparr>"

subsection \<open>Strings\<close>

text \<open>
  Characters are 8-bit; \<open>str.lower\<close> and \<open>str.strip\<close> are modelled on ASCII, which
  is the alphabet of every pattern and header name of the module.
\<close>

definition lower_char :: "char \<Rightarrow> char" where
  "lower_char c =
     (case map_of (zip ''ABCDEFGHIJKLMNOPQRSTUVWXYZ'' ''abcdefghijklmnopqrstuvwxyz'') c of
        Some l \<Rightarrow> l | None \<Rightarrow> c)"

definition lower :: "string \<Rightarrow> string" where
  "lower s = map lower_char s"

definition is_space :: "char \<Rightarrow> bool" where
  "is_space c = (c \<in> set [CHR '' '', CHR 0x09, CHR 0x0A, CHR 0x0B, CHR 0x0C, CHR 0x0D,
                            CHR 0x1C, CHR 0x1D, CHR 0x1E, CHR 0x1F])"

definition strip :: "string \<Rightarrow> string" where
  "strip s = rev (dropWhile is_space (rev (dropWhile is_space s)))"

subsection \<open>Regular expressions of \<open>blocked_patterns\<close>\<close>

text \<open>
  The fragment of Python's \<open>re\<close> syntax that the five blocked patterns use: literal
  characters, \<open>.\<close> (any character but a newline), \<open>\s\<close>, concatenation, alternation and
  repetition. \<open>re.search\<close> with \<open>re.IGNORECASE\<close> asks whether some substring matches,
  comparing letters without regard to case; it is computed with derivatives.
\<close>

datatype regex = Lit char | Dot | Space | Eps | Nul
  | Seq regex regex | Alt regex regex | Star regex

fun nullable :: "regex \<Rightarrow> bool" where
  "nullable (Lit c) = False"
| "nullable Dot = False"
| "nullable Space = False"
| "nullable Eps = True"
| "nullable Nul = False"
| "nullable (Seq r s) = (nullable r \<and> nullable s)"
| "nullable (Alt r s) = (nullable r \<or> nullable s)"
| "nullable (Star r) = True"

fun deriv :: "char \<Rightarrow> regex \<Rightarrow> regex" where
  "deriv c (Lit d) = (if lower_char c = lower_char d then Eps else Nul)"
| "deriv c Dot = (if c = CHR 0x0A then Nul else Eps)"
| "deriv c Space = (if is_space c then Eps else Nul)"
| "deriv c Eps = Nul"
| "deriv c Nul = Nul"
| "deriv c (Seq r s) =
     (if nullable r then Alt (Seq (deriv c r) s) (deriv c s) else Seq (deriv c r) s)"
| "deriv c (Alt r s) = Alt (deriv c r) (deriv c s)"
| "deriv c (Star r) = Seq (deriv c r) (Star r)"

fun match_prefix :: "regex \<Rightarrow> string \<Rightarrow> bool" where
  "match_prefix r [] = nullable r"
| "match_prefix r (c # cs) = (nullable r \<or> match_prefix (deriv c r) cs)"

fun re_search :: "regex \<Rightarrow> string \<Rightarrow> bool" where
  "re_search r [] = nullable r"
| "re_search r (c # cs) = (match_prefix r (c # cs) \<or> re_search r cs)"

definition lit :: "string \<Rightarrow> regex" where
  "lit s = foldr (\<lambda>c r. Seq (Lit c) r) s Eps"

definition blocked_patterns :: "regex list" where
  "blocked_patterns =
     [ Alt (lit ''../'') (Seq (lit ''..'') (Lit (CHR 0x5C))),
       Seq (lit ''<script'') (Seq (Star Dot) (Lit CHR ''>'')),
       Seq (lit ''union'') (Seq (Star Dot) (lit ''select'')),
       Seq (lit ''drop'') (Seq (Seq Space (Star Space)) (lit ''table'')),
       lit ''exec('' ]"

subsection \<open>Configuration\<close>

text \<open>
  The fields of \<open>SecurityConfig\<close> that the request pipeline reads. They are loaded from
  the environment, so every field is an input of the model.
\<close>

record security_config =
  rate_limit_requests :: int
  rate_limit_window :: int
  max_request_size :: int
  allowed_ips :: "string list"
  security_headers :: "(string \<times> string) list"
  ngrok_enabled :: bool

definition is_safe_request :: "string \<Rightarrow> bool" where
  "is_safe_request request_data =
     (let request_lower = lower request_data
      in \<not> list_ex (\<lambda>pattern. re_search pattern request_lower) blocked_patterns)"

subsection \<open>Exceptions\<close>

text \<open>
  The exceptions that the modelled functions raise or catch. All of them derive from
  Python's \<open>Exception\<close>. The classes of the \<open>jwt\<close> package are listed with their
  place in its hierarchy: every class below except \<open>InvalidKeyError\<close> derives from
  \<open>InvalidTokenError\<close>.
\<close>

datatype jwt_error = ExpiredSignatureError | InvalidSignatureError | DecodeError
  | ImmatureSignatureError | InvalidAudienceError | InvalidIssuerError
  | InvalidIssuedAtError | MissingRequiredClaimError | InvalidAlgorithmError
  | InvalidKeyError

fun is_InvalidTokenError :: "jwt_error \<Rightarrow> bool" where
  "is_InvalidTokenError InvalidKeyError = False"
| "is_InvalidTokenError e = True"

datatype py_exception = HTTPException int string
  | ValueError | TypeError | AttributeError | KeyError | ClientDisconnect
  | JWTError jwt_error

subsection \<open>Requests and responses\<close>

text \<open>
  What the middleware reads of a Starlette request. \<open>req_body = None\<close> stands for a
  request whose body cannot be read (\<open>await request.body()\<close> raises). The body is a byte
  string; decoding it is the identity on the ASCII bodies of the model.
\<close>

record request =
  req_path :: string
  req_method :: string
  req_headers :: "(string \<times> string) list"
  req_client_host :: "string option"
  req_body :: "string option"

record response =
  resp_status :: int
  resp_headers :: "(string \<times> string) list"
  resp_content :: string

text \<open>Header names are compared without regard to case.\<close>

definition headers_get :: "(string \<times> string) list \<Rightarrow> string \<Rightarrow> string option" where
  "headers_get hs name = map_of (map (\<lambda>(k, v). (lower k, v)) hs) (lower name)"

fun forwarded_ip :: "(string \<times> string) list \<Rightarrow> string list \<Rightarrow> string option" where
  "forwarded_ip hs [] = None"
| "forwarded_ip hs (header # rest) =
     (case headers_get hs header of
        None \<Rightarrow> forwarded_ip hs rest
      | Some val \<Rightarrow>
          if val = [] then forwarded_ip hs rest
          else let ip = strip (takeWhile (\<lambda>c. c \<noteq> CHR '','') val)
               in if ip \<noteq> [] \<and> ip \<noteq> ''unknown'' then Some ip else forwarded_ip hs rest)"

definition get_client_ip :: "request \<Rightarrow> string" where
  "get_client_ip req =
     (case forwarded_ip (req_headers req)
             [''X-Forwarded-For'', ''X-Real-IP'', ''X-Original-Forwarded-For'',
              ''CF-Connecting-IP'', ''True-Client-IP''] of
        Some ip \<Rightarrow> ip
      | None \<Rightarrow> (case req_client_host req of Some host \<Rightarrow> host | None \<Rightarrow> ''unknown''))"

subsection \<open>IP allow-list\<close>

text \<open>
  The standard module \<open>ipaddress\<close> is an input of the model: \<open>ip_address\<close> and
  \<open>ip_network\<close> parse a string (\<open>None\<close> is the \<open>ValueError\<close> of the module), and
  \<open>net_contains\<close> is the test \<open>client_addr in network\<close>.
\<close>

record ('a, 'n) ipaddress_module =
  ip_address :: "string \<Rightarrow> 'a option"
  ip_network :: "string \<Rightarrow> 'n option"
  net_contains :: "'n \<Rightarrow> 'a \<Rightarrow> bool"

fun ip_in_ranges :: "('a, 'n) ipaddress_module \<Rightarrow> 'a \<Rightarrow> string list \<Rightarrow> bool" where
  "ip_in_ranges lib client_addr [] = False"
| "ip_in_ranges lib client_addr (allowed # rest) =
     (if CHR ''/'' \<in> set allowed
      then (case ip_network lib allowed of
              None \<Rightarrow> ip_in_ranges lib client_addr rest
            | Some network \<Rightarrow>
                if net_contains lib network client_addr then True
                else ip_in_ranges lib client_addr rest)
      else (case ip_address lib allowed of
              None \<Rightarrow> ip_in_ranges lib client_addr rest
            | Some addr \<Rightarrow>
                if client_addr = addr then True else ip_in_ranges lib client_addr rest))"

definition is_ip_allowed :: "('a, 'n) ipaddress_module \<Rightarrow> string list \<Rightarrow> string \<Rightarrow> bool" where
  "is_ip_allowed lib allowed client_ip =
     (if allowed = [] then True
      else if client_ip \<in> set allowed then True
      else (case ip_address lib client_ip of
              None \<Rightarrow> False
            | Some client_addr \<Rightarrow> ip_in_ranges lib client_addr allowed))"

subsection \<open>Reading the content length\<close>

text \<open>
  Python's \<open>int\<close> on a string: surrounding whitespace is stripped, a sign may come first,
  and single underscores may separate digits. \<open>None\<close> is the \<open>ValueError\<close>.
\<close>

definition digit_val :: "char \<Rightarrow> nat option" where
  "digit_val c = map_of (zip ''0123456789'' [0, 1, 2, 3, 4, 5, 6, 7, 8, 9]) c"

fun int_digits :: "nat \<Rightarrow> bool \<Rightarrow> string \<Rightarrow> nat option" where
  "int_digits acc after_digit [] = (if after_digit then Some acc else None)"
| "int_digits acc after_digit (c # cs) =
     (if c = CHR ''_''
      then (if after_digit then int_digits acc False cs else None)
      else (case digit_val c of
              None \<Rightarrow> None
            | Some d \<Rightarrow> int_digits (10 * acc + d) True cs))"

definition py_int :: "string \<Rightarrow> int option" where
  "py_int s =
     (case strip s of
        [] \<Rightarrow> None
      | c # cs \<Rightarrow>
          if c = CHR ''-'' then map_option (\<lambda>n. - int n) (int_digits 0 False cs)
          else if c = CHR ''+'' then map_option int (int_digits 0 False cs)
          else map_option int (int_digits 0 False (c # cs)))"

subsection \<open>The middleware\<close>

definition add_security_headers :: "security_config \<Rightarrow> response \<Rightarrow> response" where
  "add_security_headers cfg resp =
     resp\<lparr> resp_headers :=
       foldl (\<lambda>hs (header, val). AList.update header val hs)
             (resp_headers resp) (security_headers cfg) \<rparr>"

text \<open>
  The body of the \<open>try\<close> block that validates the content of a mutating request: reading
  the body may raise, and a body that matches a blocked pattern logs the event and raises
  \<open>HTTPException(400)\<close>.
\<close>

definition validate_content :: "request \<Rightarrow> string \<Rightarrow> sec_state \<Rightarrow> (py_exception + unit) \<times> sec_state" where
  "validate_content req client_ip s =
     (case req_body req of
        None \<Rightarrow> (Inl ClientDisconnect, s)
      | Some body \<Rightarrow>
          if body \<noteq> [] \<and> \<not> is_safe_request body
          then (Inl (HTTPException 400 ''Request contains invalid patterns''),
                log_security_event ''MALICIOUS_REQUEST'' ''Blocked malicious request pattern''
                  client_ip s)
          else (Inr (), s))"

text \<open>
  The size test \<open>content_length and int(content_length) > max_request_size\<close>: the header
  value when the request is too large, \<open>None\<close> when it is not, or the \<open>ValueError\<close> of
  \<open>int\<close>.
\<close>

definition request_too_large :: "security_config \<Rightarrow> request \<Rightarrow> py_exception + string option" where
  "request_too_large cfg req =
     (case headers_get (req_headers req) ''content-length'' of
        None \<Rightarrow> Inr None
      | Some content_length \<Rightarrow>
          if content_length = [] then Inr None
          else (case py_int content_length of
                  None \<Rightarrow> Inl ValueError
                | Some n \<Rightarrow>
                    if n > max_request_size cfg then Inr (Some content_length) else Inr None))"

text \<open>
  \<open>security_middleware\<close>. \<open>call_next\<close> is the rest of the application; the result is the
  exception that the middleware raises or the response that it returns. The clause
  \<open>except Exception: pass\<close> around the content validation catches whatever the block
  raises, so both outcomes of \<open>validate_content\<close> continue with the request. The
  \<open>X-Process-Time\<close> header, a rounded floating-point duration, is left out of the response.
\<close>

definition security_middleware ::
  "security_config \<Rightarrow> ('a, 'n) ipaddress_module \<Rightarrow> real \<Rightarrow> request \<Rightarrow> (request \<Rightarrow> response)
     \<Rightarrow> sec_state \<Rightarrow> (py_exception + response) \<times> sec_state" where
  "security_middleware cfg lib current_time req call_next s =
     (let client_ip = get_client_ip req in
      if req_path req \<in> set [''/health'', ''/'', ''/docs'', ''/redoc'', ''/openapi.json'']
      then (Inr (add_security_headers cfg (call_next req)), s)
      else if allowed_ips cfg \<noteq> [] \<and> \<not> is_ip_allowed lib (allowed_ips cfg) client_ip
      then (Inl (HTTPException 403 ''Access denied from this IP address''),
            log_security_event ''IP_BLOCKED'' ''IP not in allowlist'' client_ip s)
      else
        let (ok, s1) = check_rate_limit (rate_limit_requests cfg) (rate_limit_window cfg)
                         current_time client_ip s
        in if \<not> ok
           then (Inl (HTTPException 429 ''Rate limit exceeded. Try again later.''), s1)
           else
             (case request_too_large cfg req of
                Inl e \<Rightarrow> (Inl e, s1)
              | Inr (Some content_length) \<Rightarrow>
                  (Inl (HTTPException 413 ''Request payload too large''),
                   log_security_event ''REQUEST_TOO_LARGE''
                     (''Request size: '' @ content_length) client_ip s1)
              | Inr None \<Rightarrow>
                  let s2 = (if req_method req \<in> set [''POST'', ''PUT'', ''PATCH'']
                            then (case validate_content req client_ip s1 of
                                    (Inl e, s') \<Rightarrow> s'
                                  | (Inr u, s') \<Rightarrow> s')
                            else s1);
                      resp = add_security_headers cfg (call_next req);
                      resp' = (if ngrok_enabled cfg
                               then resp\<lparr> resp_headers :=
                                      AList.update ''X-NGROK-Secured'' ''true'' (resp_headers resp) \<rparr>
                               else resp)
                  in (Inr resp', s2)))"

subsection \<open>Token verification\<close>

text \<open>
  \<open>verify_jwt_token\<close> calls \<open>jwt.decode\<close> of the PyJWT package with the configured secret
  and algorithm. The package is an input of the model: \<open>jwt_decode token key algorithms\<close>
  is the payload that the call returns or the exception that it raises. The two
  \<open>except\<close> clauses of the source catch \<open>ExpiredSignatureError\<close> and every
  \<open>InvalidTokenError\<close>; any other exception reaches the caller.
\<close>

definition verify_jwt_token ::
  "(string \<Rightarrow> string \<Rightarrow> string list \<Rightarrow> jwt_error + 'p) \<Rightarrow> string \<Rightarrow> string \<Rightarrow> string
     \<Rightarrow> py_exception + 'p option" where
  "verify_jwt_token jwt_decode jwt_secret jwt_algorithm token =
     (case jwt_decode token jwt_secret [jwt_algorithm] of
        Inr payload \<Rightarrow> Inr (Some payload)
      | Inl e \<Rightarrow>
          if e = ExpiredSignatureError then Inr None
          else if is_InvalidTokenError e then Inr None
          else Inl (JWTError e))"


definition is_status :: "int \<Rightarrow> py_exception + response \<Rightarrow> bool" where
  "is_status code outcome =
     (case outcome of Inl (HTTPException c d) \<Rightarrow> c = code | _ \<Rightarrow> False)"



subsection \<open>A concrete deployment\<close>

text \<open>
  A configuration with a threshold of two requests per sixty seconds and the local
  allow-list, an address module that compares addresses as strings and knows no
  networks, a handler, and two requests from the local address.
\<close>

definition example_config :: security_config where
  "example_config =
     \<lparr> rate_limit_requests = 2, rate_limit_window = 60, max_request_size = 5242880,
       allowed_ips = [''127.0.0.1'', ''::1'', ''localhost''],
       security_headers = [(''X-Content-Type-Options'', ''nosniff''),
                           (''X-Frame-Options'', ''SAMEORIGIN'')],
       ngrok_enabled = False \<rparr>"

definition example_module :: "(string, string) ipaddress_module" where
  "example_module =
     \<lparr> ip_address = (\<lambda>s. Some s), ip_network = (\<lambda>s. None), net_contains = (\<lambda>n a. False) \<rparr>"

definition example_handler :: "request \<Rightarrow> response" where
  "example_handler req = \<lparr> resp_status = 200, resp_headers = [], resp_content = ''handled'' \<rparr>"

definition example_get :: request where
  "example_get =
     \<lparr> req_path = ''/devices/all'', req_method = ''GET'', req_headers = [],
       req_client_host = Some ''127.0.0.1'', req_body = Some [] \<rparr>"

definition example_post :: request where
  "example_post =
     \<lparr> req_path = ''/holidays/validate'', req_method = ''POST'',
       req_headers = [(''Content-Length'', ''16'')],
       req_client_host = Some ''127.0.0.1'', req_body = Some ''../../etc/passwd'' \<rparr>"


section \<open>Unified gateway (backend/unified_gateway.py)\<close>

subsection \<open>JSON values\<close>

text \<open>
  The values that \<open>response.json()\<close> returns. A JSON object is a Python dictionary: an
  association list in insertion order, read with \<open>map_of\<close> and written with
  \<open>AList.update\<close>, which replaces the value of a present key in place and appends an
  absent one. Numbers are integers; the handlers do no arithmetic on them.
\<close>

datatype json = JNull | JBool bool | JInt int | JStr string
  | JList "json list" | JDict "(string \<times> json) list"

fun truthy :: "json \<Rightarrow> bool" where
  "truthy JNull = False"
| "truthy (JBool b) = b"
| "truthy (JInt i) = (i \<noteq> 0)"
| "truthy (JStr s) = (s \<noteq> [])"
| "truthy (JList xs) = (xs \<noteq> [])"
| "truthy (JDict d) = (d \<noteq> [])"

definition dict_get :: "(string \<times> json) list \<Rightarrow> string \<Rightarrow> json \<Rightarrow> json" where
  "dict_get d k fallback = (case map_of d k of Some v \<Rightarrow> v | None \<Rightarrow> fallback)"

text \<open>Iterating over a value with \<open>for x in v\<close>: a dictionary yields its keys, a string
  its characters, and a value that is not iterable raises \<open>TypeError\<close>.\<close>

fun py_iter :: "json \<Rightarrow> py_exception + json list" where
  "py_iter (JList xs) = Inr xs"
| "py_iter (JDict d) = Inr (map (\<lambda>(k, v). JStr k) d)"
| "py_iter (JStr s) = Inr (map (\<lambda>c. JStr [c]) s)"
| "py_iter v = Inl TypeError"

subsection \<open>Decimal numerals\<close>

function str_of_nat :: "nat \<Rightarrow> string" where
  "str_of_nat n =
     (if n < 10 then [''0123456789'' ! n]
      else str_of_nat (n div 10) @ [''0123456789'' ! (n mod 10)])"
  by pat_completeness auto
termination
  by (relation "measure id") auto

declare str_of_nat.simps [simp del]

definition str_of_int :: "int \<Rightarrow> string" where
  "str_of_int i = (if i < 0 then ''-'' @ str_of_nat (nat (- i)) else str_of_nat (nat i))"

text \<open>
  \<open>str\<close> of a value, as an f-string takes it. The text of a list or of a dictionary
  (Python's \<open>repr\<close> of the container) is an input of the model.
\<close>

definition py_str :: "(json \<Rightarrow> string) \<Rightarrow> json \<Rightarrow> string" where
  "py_str container_str v =
     (case v of
        JStr s \<Rightarrow> s
      | JInt i \<Rightarrow> str_of_int i
      | JBool b \<Rightarrow> (if b then ''True'' else ''False'')
      | JNull \<Rightarrow> ''None''
      | _ \<Rightarrow> container_str v)"

subsection \<open>Backend registry and outbound calls\<close>

text \<open>
  \<open>config.backends\<close> maps a backend name to its configuration; the model keeps the
  entries in the order of the dictionary. The entry \<open>url\<close> is read with
  \<open>backend_config['url']\<close> and \<open>location\<close> with a default.
\<close>

record backend_config =
  bc_url :: string
  bc_location :: "string option"

text \<open>
  What the GET request of \<open>call_backend\<close> does: it answers with a status, a body that
  \<open>response.json()\<close> parses (\<open>Inr\<close>) or fails to parse with a message (\<open>Inl\<close>), and
  possibly an \<open>X-Process-Time\<close> header; or it runs into the timeout; or it raises some
  other exception with a message.
\<close>

datatype http_outcome = Response int "string + json" "string option"
  | TimeoutError | ClientError string

definition backend_identity :: "string \<Rightarrow> backend_config \<Rightarrow> (string \<times> json) list" where
  "backend_identity backend_name backend_config =
     [(''_backend_name'', JStr backend_name),
      (''_backend_url'', JStr (bc_url backend_config)),
      (''_place_location'',
         JStr (case bc_location backend_config of Some l \<Rightarrow> l | None \<Rightarrow> ''Unknown''))]"

definition error_result :: "string \<Rightarrow> string \<Rightarrow> (string \<times> json) list \<Rightarrow> json" where
  "error_result message code identity =
     JDict ([(''success'', JBool False), (''error'', JStr message), (''error_code'', JStr code)]
            @ identity)"

text \<open>
  \<open>call_backend\<close>, given the outcome of its GET request. An unknown backend name raises
  \<open>HTTPException(404)\<close>. A 200 response returns the parsed body, annotated with the
  identity of the backend when the body is a dictionary; every other outcome returns an
  error dictionary that carries the identity. The log entries that the function writes
  are not part of its result and are left out.
\<close>

definition call_backend ::
  "(string \<times> backend_config) list \<Rightarrow> string \<Rightarrow> http_outcome \<Rightarrow> py_exception + json" where
  "call_backend backends backend_name outcome =
     (case map_of backends backend_name of
        None \<Rightarrow>
          Inl (HTTPException 404 (''Backend '' @ [CHR 0x27] @ backend_name @ [CHR 0x27] @ '' not found''))
      | Some backend_config \<Rightarrow>
          let identity = backend_identity backend_name backend_config in
          Inr (case outcome of
                 Response status body process_time \<Rightarrow>
                   if status = 200 then
                     (case body of
                        Inr data \<Rightarrow>
                          (case data of
                             JDict d \<Rightarrow>
                               JDict (AList.update ''_response_time''
                                        (JStr (case process_time of Some p \<Rightarrow> p | None \<Rightarrow> ''unknown''))
                                        (foldl (\<lambda>d' (k, v). AList.update k v d') d identity))
                           | _ \<Rightarrow> data)
                      | Inl message \<Rightarrow>
                          error_result (''Backend communication error: '' @ message)
                            ''CONNECTION_ERROR'' identity)
                   else if status = 401 then
                     error_result (''Authentication failed for backend '' @ backend_name)
                       ''AUTH_FAILED'' identity
                   else if status = 403 then
                     error_result (''Access denied for backend '' @ backend_name)
                       ''ACCESS_DENIED'' identity
                   else if status \<ge> 500 then
                     error_result (''Backend '' @ backend_name @ '' server error'')
                       ''SERVER_ERROR'' identity
                   else
                     error_result (''Backend '' @ backend_name @ '' returned status '' @ str_of_int status)
                       ''HTTP_ERROR'' identity
               | TimeoutError \<Rightarrow>
                   error_result (''Backend '' @ backend_name @ '' timeout'') ''TIMEOUT'' identity
               | ClientError message \<Rightarrow>
                   error_result (''Backend communication error: '' @ message)
                     ''CONNECTION_ERROR'' identity))"

text \<open>
  \<open>call_all_backends\<close>: one call per registered backend, \<open>outcome_of\<close> giving the outcome
  of the request to each; \<open>asyncio.gather\<close> with \<open>return_exceptions=True\<close> turns a raised
  exception into a result, and only the results that are dictionaries are kept.
\<close>

fun valid_result :: "py_exception + json \<Rightarrow> (string \<times> json) list option" where
  "valid_result (Inr (JDict d)) = Some d"
| "valid_result r = None"

definition call_all_backends ::
  "(string \<times> backend_config) list \<Rightarrow> (string \<Rightarrow> http_outcome) \<Rightarrow> (string \<times> json) list list" where
  "call_all_backends backends outcome_of =
     List.map_filter valid_result
       (map (\<lambda>backend_name. call_backend backends backend_name (outcome_of backend_name))
            (map fst backends))"

subsection \<open>Fan-out endpoints\<close>

text \<open>The three accumulators of a unified listing.\<close>

record merged =
  all_items :: "json list"
  backend_sources :: "json list"
  places :: "json list"

definition no_items :: merged where
  "no_items = \<lparr> all_items = [], backend_sources = [], places = [] \<rparr>"

definition tag :: "json \<Rightarrow> json \<Rightarrow> (string \<times> json) list \<Rightarrow> json" where
  "tag backend_name place_location e =
     JDict (AList.update ''place_location'' place_location
              (AList.update ''backend_name'' backend_name e))"

text \<open>
  The inner loop of \<open>/devices/all\<close> and \<open>/attendance/all\<close>: each entity receives the two
  tags by item assignment, which raises \<open>TypeError\<close> on a value that is not a dictionary,
  and is appended.
\<close>

fun tag_entities :: "json \<Rightarrow> json \<Rightarrow> json list \<Rightarrow> json list \<Rightarrow> py_exception + json list" where
  "tag_entities backend_name place_location [] items = Inr items"
| "tag_entities backend_name place_location (entity # rest) items =
     (case entity of
        JDict e \<Rightarrow>
          tag_entities backend_name place_location rest (items @ [tag backend_name place_location e])
      | _ \<Rightarrow> Inl TypeError)"

definition note_source :: "json \<Rightarrow> json \<Rightarrow> merged \<Rightarrow> merged" where
  "note_source backend_name place_location acc =
     acc\<lparr> backend_sources := backend_sources acc @ [backend_name],
          places := (if place_location \<in> set (places acc) then places acc
                     else places acc @ [place_location]) \<rparr>"

text \<open>The outer loop over the results, for the collection stored under \<open>key\<close>.\<close>

fun merge_results :: "string \<Rightarrow> (string \<times> json) list list \<Rightarrow> merged \<Rightarrow> py_exception + merged" where
  "merge_results key [] acc = Inr acc"
| "merge_results key (result # rest) acc =
     (if truthy (dict_get result ''success'' JNull) \<and> map_of result key \<noteq> None
      then
        let backend_name = dict_get result ''_backend_name'' (JStr ''Unknown'');
            place_location = dict_get result ''_place_location'' (JStr ''Unknown'');
            acc' = note_source backend_name place_location acc
        in (case py_iter (dict_get result key JNull) of
              Inl e \<Rightarrow> Inl e
            | Inr entities \<Rightarrow>
                (case tag_entities backend_name place_location entities (all_items acc') of
                   Inl e \<Rightarrow> Inl e
                 | Inr items \<Rightarrow> merge_results key rest (acc'\<lparr> all_items := items \<rparr>)))
      else merge_results key rest acc)"

definition unified_response :: "string \<Rightarrow> string \<Rightarrow> string \<Rightarrow> merged \<Rightarrow> json" where
  "unified_response items_key total_key noun m =
     JDict [(''success'', JBool True),
            (items_key, JList (all_items m)),
            (total_key, JInt (int (length (all_items m)))),
            (''backend_sources'', JList (backend_sources m)),
            (''places'', JList (places m)),
            (''message'', JStr (''Retrieved '' @ str_of_nat (length (all_items m)) @ noun
                                  @ str_of_nat (length (backend_sources m)) @ '' places''))]"

definition get_all_devices_unified ::
  "(string \<times> backend_config) list \<Rightarrow> (string \<Rightarrow> http_outcome) \<Rightarrow> py_exception + json" where
  "get_all_devices_unified backends outcome_of =
     (case merge_results ''devices'' (call_all_backends backends outcome_of) no_items of
        Inl e \<Rightarrow> Inl e
      | Inr m \<Rightarrow> Inr (unified_response ''devices'' ''total_devices'' '' devices from '' m))"

definition get_all_attendance_unified ::
  "(string \<times> backend_config) list \<Rightarrow> (string \<Rightarrow> http_outcome) \<Rightarrow> py_exception + json" where
  "get_all_attendance_unified backends outcome_of =
     (case merge_results ''data'' (call_all_backends backends outcome_of) no_items of
        Inl e \<Rightarrow> Inl e
      | Inr m \<Rightarrow> Inr (unified_response ''data'' ''total_records'' '' records from '' m))"

text \<open>
  \<open>/users/all\<close>: the key of a user is the text of its \<open>name\<close>, a hyphen and the text of
  its \<open>userid\<close>; \<open>user.get\<close> raises \<open>AttributeError\<close> on a value that is not a
  dictionary. A user whose key is in \<open>user_set\<close> is skipped.
\<close>

definition user_key :: "(json \<Rightarrow> string) \<Rightarrow> (string \<times> json) list \<Rightarrow> string" where
  "user_key container_str user =
     py_str container_str (dict_get user ''name'' (JStr []))
       @ ''-'' @ py_str container_str (dict_get user ''userid'' (JStr []))"

fun add_users :: "(json \<Rightarrow> string) \<Rightarrow> json \<Rightarrow> json \<Rightarrow> json list \<Rightarrow> json list \<times> string set
     \<Rightarrow> py_exception + json list \<times> string set" where
  "add_users container_str backend_name place_location [] (users, user_set) = Inr (users, user_set)"
| "add_users container_str backend_name place_location (user # rest) (users, user_set) =
     (case user of
        JDict u \<Rightarrow>
          if user_key container_str u \<notin> user_set
          then add_users container_str backend_name place_location rest
                 (users @ [tag backend_name place_location u],
                  insert (user_key container_str u) user_set)
          else add_users container_str backend_name place_location rest (users, user_set)
      | _ \<Rightarrow> Inl AttributeError)"

fun merge_users :: "(json \<Rightarrow> string) \<Rightarrow> (string \<times> json) list list \<Rightarrow> merged \<times> string set
     \<Rightarrow> py_exception + merged \<times> string set" where
  "merge_users container_str [] (acc, user_set) = Inr (acc, user_set)"
| "merge_users container_str (result # rest) (acc, user_set) =
     (if truthy (dict_get result ''success'' JNull) \<and> map_of result ''users'' \<noteq> None
      then
        let backend_name = dict_get result ''_backend_name'' (JStr ''Unknown'');
            place_location = dict_get result ''_place_location'' (JStr ''Unknown'');
            acc' = note_source backend_name place_location acc
        in (case py_iter (dict_get result ''users'' JNull) of
              Inl e \<Rightarrow> Inl e
            | Inr entities \<Rightarrow>
                (case add_users container_str backend_name place_location entities
                        (all_items acc', user_set) of
                   Inl e \<Rightarrow> Inl e
                 | Inr (users, user_set') \<Rightarrow>
                     merge_users container_str rest (acc'\<lparr> all_items := users \<rparr>, user_set')))
      else merge_users container_str rest (acc, user_set))"

definition get_all_users_unified ::
  "(json \<Rightarrow> string) \<Rightarrow> (string \<times> backend_config) list \<Rightarrow> (string \<Rightarrow> http_outcome)
     \<Rightarrow> py_exception + json" where
  "get_all_users_unified container_str backends outcome_of =
     (case merge_users container_str (call_all_backends backends outcome_of) (no_items, {}) of
        Inl e \<Rightarrow> Inl e
      | Inr (m, user_set) \<Rightarrow>
          Inr (JDict [(''success'', JBool True),
                      (''users'', JList (all_items m)),
                      (''total_users'', JInt (int (length (all_items m)))),
                      (''backend_sources'', JList (backend_sources m)),
                      (''places'', JList (places m)),
                      (''message'', JStr (''Retrieved '' @ str_of_nat (length (all_items m))
                                            @ '' unique users from ''
                                            @ str_of_nat (length (backend_sources m)) @ '' places''))]))"

text \<open>
  \<open>/summary/all\<close>: the result of every target that reports success is copied, tagged
  and appended as a whole.
\<close>

fun merge_summaries :: "(string \<times> json) list list \<Rightarrow> merged \<Rightarrow> merged" where
  "merge_summaries [] acc = acc"
| "merge_summaries (result # rest) acc =
     (if truthy (dict_get result ''success'' JNull)
      then
        let backend_name = dict_get result ''_backend_name'' (JStr ''Unknown'');
            place_location = dict_get result ''_place_location'' (JStr ''Unknown'');
            acc' = note_source backend_name place_location acc
        in merge_summaries rest
             (acc'\<lparr> all_items := all_items acc' @ [tag backend_name place_location result] \<rparr>)
      else merge_summaries rest acc)"

definition get_all_summary_unified ::
  "(string \<times> backend_config) list \<Rightarrow> (string \<Rightarrow> http_outcome) \<Rightarrow> py_exception + json" where
  "get_all_summary_unified backends outcome_of =
     (let m = merge_summaries (call_all_backends backends outcome_of) no_items
      in Inr (JDict [(''success'', JBool True),
                     (''summaries'', JList (all_items m)),
                     (''total_places'', JInt (int (length (all_items m)))),
                     (''backend_sources'', JList (backend_sources m)),
                     (''places'', JList (places m)),
                     (''message'', JStr (''Retrieved summaries from ''
                                           @ str_of_nat (length (backend_sources m)) @ '' places''))]))"

text \<open>The deduplication key of an entry of the user listing.\<close>

definition key_of :: "(json \<Rightarrow> string) \<Rightarrow> json \<Rightarrow> string" where
  "key_of container_str entity =
     (case entity of JDict u \<Rightarrow> user_key container_str u | _ \<Rightarrow> [])"

text \<open>A field of the dictionary that a handler returns; \<open>None\<close> when the handler raises.\<close>

definition response_field :: "py_exception + json \<Rightarrow> string \<Rightarrow> json option" where
  "response_field r k = (case r of Inr (JDict d) \<Rightarrow> map_of d k | _ \<Rightarrow> None)"

subsection \<open>Succeeding and failing targets\<close>

text \<open>
  A target succeeds on a fan-out call for the collection \<open>key\<close> when it answers 200 with
  a JSON object whose \<open>success\<close> is true and whose \<open>key\<close> holds a list of JSON objects,
  as the upstream contract demands. It fails when \<open>call_backend\<close> classifies its outcome
  as a failure: a status other than 200, a body that cannot be parsed, a timeout or
  another exception.
\<close>

fun is_object :: "json \<Rightarrow> bool" where
  "is_object (JDict d) = True"
| "is_object v = False"

definition succeeds :: "string \<Rightarrow> http_outcome \<Rightarrow> bool" where
  "succeeds key outcome =
     (case outcome of
        Response status (Inr (JDict d)) process_time \<Rightarrow>
          status = 200 \<and> truthy (dict_get d ''success'' JNull)
          \<and> (case map_of d key of Some (JList xs) \<Rightarrow> list_all is_object xs | _ \<Rightarrow> False)
      | _ \<Rightarrow> False)"

definition fails :: "http_outcome \<Rightarrow> bool" where
  "fails outcome =
     (case outcome of
        Response status body process_time \<Rightarrow>
          status \<noteq> 200 \<or> (case body of Inl message \<Rightarrow> True | Inr data \<Rightarrow> False)
      | _ \<Rightarrow> True)"

definition reported :: "string \<Rightarrow> http_outcome \<Rightarrow> json list" where
  "reported key outcome =
     (case outcome of
        Response status (Inr (JDict d)) process_time \<Rightarrow>
          (case map_of d key of Some (JList xs) \<Rightarrow> xs | _ \<Rightarrow> [])
      | _ \<Rightarrow> [])"

definition location_of :: "(string \<times> backend_config) list \<Rightarrow> string \<Rightarrow> string" where
  "location_of backends backend_name =
     (case map_of backends backend_name of
        Some backend_config \<Rightarrow>
          (case bc_location backend_config of Some l \<Rightarrow> l | None \<Rightarrow> ''Unknown'')
      | None \<Rightarrow> ''Unknown'')"

definition tag_from :: "(string \<times> backend_config) list \<Rightarrow> string \<Rightarrow> json \<Rightarrow> json" where
  "tag_from backends backend_name entity =
     (case entity of
        JDict e \<Rightarrow> tag (JStr backend_name) (JStr (location_of backends backend_name)) e
      | _ \<Rightarrow> entity)"

definition identity_keys :: "string list" where
  "identity_keys = [''_backend_name'', ''_backend_url'', ''_place_location'', ''_response_time'']"

definition succeeding :: "string \<Rightarrow> (string \<times> backend_config) list \<Rightarrow> (string \<Rightarrow> http_outcome) \<Rightarrow> string list" where
  "succeeding key backends outcome_of =
     filter (\<lambda>n. succeeds key (outcome_of n)) (map fst backends)"

definition failing :: "(string \<times> backend_config) list \<Rightarrow> (string \<Rightarrow> http_outcome) \<Rightarrow> string list" where
  "failing backends outcome_of = filter (\<lambda>n. fails (outcome_of n)) (map fst backends)"

definition entities_of :: "string \<Rightarrow> (string \<times> backend_config) list \<Rightarrow> (string \<Rightarrow> http_outcome) \<Rightarrow> json list" where
  "entities_of key backends outcome_of =
     concat (map (\<lambda>n. map (tag_from backends n) (reported key (outcome_of n)))
                 (succeeding key backends outcome_of))"



subsection \<open>Three registered targets\<close>

definition example_backends :: "(string \<times> backend_config) list" where
  "example_backends =
     [(''A'', \<lparr> bc_url = ''http://a:8000'', bc_location = Some ''Back Office'' \<rparr>),
      (''B'', \<lparr> bc_url = ''http://b:8000'', bc_location = Some ''Show Room'' \<rparr>),
      (''C'', \<lparr> bc_url = ''http://c:8000'', bc_location = None \<rparr>)]"

definition example_devices :: "string \<Rightarrow> http_outcome" where
  "example_devices backend_name =
     (if backend_name = ''A'' then
        Response 200
          (Inr (JDict [(''success'', JBool True),
                       (''devices'', JList [JDict [(''device_name'', JStr ''door'')]])])) None
      else if backend_name = ''B'' then TimeoutError
      else
        Response 200
          (Inr (JDict [(''success'', JBool True),
                       (''devices'', JList [JDict [(''device_name'', JStr ''gate'')],
                                            JDict [(''device_name'', JStr ''dock'')]])]))
          (Some ''0.01''))"

definition example_attendance :: "string \<Rightarrow> http_outcome" where
  "example_attendance backend_name =
     (if backend_name = ''A'' then Response 401 (Inl ''no body'') None
      else if backend_name = ''B'' then
        Response 200
          (Inr (JDict [(''success'', JBool True),
                       (''data'', JList [JDict [(''user_name'', JStr ''Sam'')]])])) None
      else ClientError ''connection refused'')"

definition example_users :: "string \<Rightarrow> http_outcome" where
  "example_users backend_name =
     (if backend_name = ''A'' then
        Response 200
          (Inr (JDict [(''success'', JBool True),
                       (''users'', JList [JDict [(''name'', JStr ''a-b''), (''userid'', JStr ''c'')],
                                          JDict [(''name'', JStr ''a''), (''userid'', JStr ''b-c'')]])]))
          None
      else if backend_name = ''B'' then
        Response 200
          (Inr (JDict [(''success'', JBool True),
                       (''users'', JList [JDict [(''name'', JStr ''a''), (''userid'', JStr ''b-c'')]])]))
          None
      else Response 503 (Inl ''no body'') None)"

subsection \<open>Identity tags\<close>

text \<open>
  An entity carries the tags when it is an object whose \<open>backend_name\<close> is the name of a
  registered backend and whose \<open>place_location\<close> is the location of that backend. A
  result of \<open>call_backend\<close> carries the identity of a backend when it is an object with
  the name, the URL and the location of the backend under \<open>_backend_name\<close>,
  \<open>_backend_url\<close> and \<open>_place_location\<close>.
\<close>

definition carries_tags :: "(string \<times> backend_config) list \<Rightarrow> json \<Rightarrow> bool" where
  "carries_tags backends entity =
     (case entity of
        JDict e \<Rightarrow>
          (case map_of e ''backend_name'' of
             Some (JStr n) \<Rightarrow>
               n \<in> set (map fst backends)
               \<and> map_of e ''place_location'' = Some (JStr (location_of backends n))
           | _ \<Rightarrow> False)
      | _ \<Rightarrow> False)"

definition carries_identity :: "string \<Rightarrow> backend_config \<Rightarrow> json \<Rightarrow> bool" where
  "carries_identity backend_name backend_config r =
     (case r of
        JDict d \<Rightarrow>
          map_of d ''_backend_name'' = Some (JStr backend_name)
          \<and> map_of d ''_backend_url'' = Some (JStr (bc_url backend_config))
          \<and> map_of d ''_place_location''
                = Some (JStr (case bc_location backend_config of Some l \<Rightarrow> l | None \<Rightarrow> ''Unknown''))
      | _ \<Rightarrow> False)"

definition non_object_body :: "http_outcome \<Rightarrow> bool" where
  "non_object_body outcome =
     (case outcome of
        Response status (Inr data) process_time \<Rightarrow> status = 200 \<and> \<not> is_object data
      | _ \<Rightarrow> False)"

definition collection :: "py_exception + json \<Rightarrow> string \<Rightarrow> json list" where
  "collection r k = (case response_field r k of Some (JList xs) \<Rightarrow> xs | _ \<Rightarrow> [])"

definition identified :: "(string \<times> backend_config) list \<Rightarrow> (string \<times> json) list \<Rightarrow> bool" where
  "identified backends d =
     (\<exists>n \<in> set (map fst backends).
        dict_get d ''_backend_name'' (JStr ''Unknown'') = JStr n
        \<and> dict_get d ''_place_location'' (JStr ''Unknown'') = JStr (location_of backends n))"

text \<open>One target reporting two users, the others timing out.\<close>

definition example_namesakes :: "string \<Rightarrow> http_outcome" where
  "example_namesakes backend_name =
     (if backend_name = ''A'' then
        Response 200
          (Inr (JDict [(''success'', JBool True),
                       (''users'', JList [JDict [(''name'', JStr ''a-b''), (''userid'', JStr ''c'')],
                                          JDict [(''name'', JStr ''a''), (''userid'', JStr ''b-c'')]])]))
          None
      else TimeoutError)"

section \<open>Properties of the rate limiter\<close>

lemma check_rate_limit_blocked:
  assumes "blocked_ips_cache s client_ip = Some until" and "current_time < until"
  shows "check_rate_limit limit window current_time client_ip s = (False, s)"
  using assms by (simp add: check_rate_limit_def)

text \<open>
  Claim C6. A client whose block instant lies in the future is rejected, and the whole
  state, in particular the timestamp list of that client, is left as it was: nothing is
  pruned and nothing is appended.
\<close>

theorem blocked_client_rejected_state_unchanged:
  assumes "blocked_ips_cache s client_ip = Some until" and "current_time < until"
  shows "fst (check_rate_limit limit window current_time client_ip s) = False
       \<and> snd (check_rate_limit limit window current_time client_ip s) = s
       \<and> rate_limit_storage (snd (check_rate_limit limit window current_time client_ip s)) client_ip
           = rate_limit_storage s client_ip"
  using check_rate_limit_blocked [OF assms] by simp

theorem blocked_client_rejected_state_unchanged_witness:
  "fst (check_rate_limit 2 60 100 ''10.0.0.7''
          (fresh_state\<lparr> rate_limit_storage := [''10.0.0.7'' \<mapsto> [1, 2]],
                         blocked_ips_cache := [''10.0.0.7'' \<mapsto> 302] \<rparr>)) = False
   \<and> rate_limit_storage
       (snd (check_rate_limit 2 60 100 ''10.0.0.7''
          (fresh_state\<lparr> rate_limit_storage := [''10.0.0.7'' \<mapsto> [1, 2]],
                         blocked_ips_cache := [''10.0.0.7'' \<mapsto> 302] \<rparr>))) ''10.0.0.7''
     = Some [1, 2]"
  using blocked_client_rejected_state_unchanged
    [of "fresh_state\<lparr> rate_limit_storage := [''10.0.0.7'' \<mapsto> [1, 2]],
                        blocked_ips_cache := [''10.0.0.7'' \<mapsto> 302] \<rparr>"
        "''10.0.0.7''" 302 100 2 60]
  by simp



lemma request_too_large_Inl:
  "request_too_large cfg req = Inl e \<Longrightarrow> e = ValueError"
  by (auto simp: request_too_large_def split: option.splits if_splits)















section \<open>Properties of the allow-list\<close>

text \<open>
  Claim C9. With an empty allow-list \<open>is_ip_allowed\<close> holds of every client address, and
  the middleware never answers 403, whatever the request and its source address are.
\<close>

theorem empty_allowlist_permits_every_address:
  assumes "allowed_ips cfg = []"
  shows "is_ip_allowed lib (allowed_ips cfg) client_ip
       \<and> \<not> is_status 403 (fst (security_middleware cfg lib current_time req call_next s))"
proof -
  have "is_ip_allowed lib (allowed_ips cfg) client_ip"
    using assms by (simp add: is_ip_allowed_def)
  moreover have "\<not> is_status 403 (fst (security_middleware cfg lib current_time req call_next s))"
    using assms
    by (auto simp: security_middleware_def Let_def is_status_def
          dest: request_too_large_Inl split: prod.splits sum.splits option.splits)
  ultimately show ?thesis by simp
qed

theorem empty_allowlist_permits_every_address_witness:
  "is_ip_allowed example_module (allowed_ips (example_config\<lparr> allowed_ips := [] \<rparr>)) ''203.0.113.9''
   \<and> \<not> is_status 403
         (fst (security_middleware (example_config\<lparr> allowed_ips := [] \<rparr>) example_module 0
                 (example_get\<lparr> req_client_host := Some ''203.0.113.9'' \<rparr>) example_handler fresh_state))"
  using empty_allowlist_permits_every_address
    [of "example_config\<lparr> allowed_ips := [] \<rparr>" example_module "''203.0.113.9''" 0
        "example_get\<lparr> req_client_host := Some ''203.0.113.9'' \<rparr>" example_handler fresh_state]
  by simp

text \<open>With the local allow-list of the example deployment, a foreign address is refused.\<close>

lemma blocked_address_with_allowlist:
  "is_status 403
         (fst (security_middleware example_config example_module 0
                 (example_get\<lparr> req_client_host := Some ''203.0.113.9'' \<rparr>) example_handler fresh_state))"
  by (simp add: security_middleware_def example_config_def example_get_def example_module_def
       get_client_ip_def headers_get_def is_ip_allowed_def is_status_def)

section \<open>Content validation\<close>

text \<open>
  Claim C3, evaluated at a POST request from an allowed address whose body is
  \<open>../../etc/passwd\<close>. The body matches the path-traversal pattern and the validation
  block raises \<open>HTTPException(400)\<close>; the enclosing \<open>except Exception: pass\<close> catches
  it, so the middleware goes on, calls the handler and returns the handler's response.
  The request is not answered with 400.
\<close>

theorem malicious_post_body_reaches_handler:
  "\<not> is_safe_request ''../../etc/passwd''
   \<and> fst (validate_content example_post ''127.0.0.1'' fresh_state)
       = Inl (HTTPException 400 ''Request contains invalid patterns'')
   \<and> fst (security_middleware example_config example_module 0 example_post example_handler fresh_state)
       = Inr (add_security_headers example_config (example_handler example_post))
   \<and> \<not> is_status 400
         (fst (security_middleware example_config example_module 0 example_post example_handler
                 fresh_state))"
proof -
  have unsafe: "\<not> is_safe_request ''../../etc/passwd''"
    by (simp add: is_safe_request_def blocked_patterns_def lit_def lower_def lower_char_def)
  have ip: "get_client_ip example_post = ''127.0.0.1''"
    by (simp add: get_client_ip_def example_post_def headers_get_def lower_def lower_char_def)
  have size: "request_too_large example_config example_post = Inr None"
    by (simp add: request_too_large_def example_post_def example_config_def headers_get_def
          lower_def lower_char_def py_int_def strip_def is_space_def digit_val_def)
  have rate: "fst (check_rate_limit 2 60 0 ''127.0.0.1'' fresh_state) = True"
    by (simp add: check_rate_limit_def fresh_state_def)
  have vc: "fst (validate_content example_post ''127.0.0.1'' fresh_state)
              = Inl (HTTPException 400 ''Request contains invalid patterns'')"
    using unsafe by (simp add: validate_content_def example_post_def)
  have mw: "fst (security_middleware example_config example_module 0 example_post example_handler
                   fresh_state)
              = Inr (add_security_headers example_config (example_handler example_post))"
    using ip size rate
    by (simp add: security_middleware_def Let_def split_beta is_ip_allowed_def)
       (simp add: example_config_def example_post_def)
  show ?thesis using unsafe vc mw by (simp add: is_status_def)
qed

text \<open>No request at all is answered with 400 by the middleware.\<close>

lemma security_middleware_never_400:
  "\<not> is_status 400 (fst (security_middleware cfg lib current_time req call_next s))"
  by (auto simp: security_middleware_def Let_def is_status_def
        dest: request_too_large_Inl split: prod.splits sum.splits option.splits)

text \<open>A body that cannot be read lets the request through to the handler.\<close>

lemma unreadable_body_passes_through:
  "fst (security_middleware example_config example_module 0
          (example_post\<lparr> req_body := None \<rparr>) example_handler fresh_state)
     = Inr (add_security_headers example_config
              (example_handler (example_post\<lparr> req_body := None \<rparr>)))"
proof -
  have ip: "get_client_ip (example_post\<lparr> req_body := None \<rparr>) = ''127.0.0.1''"
    by (simp add: get_client_ip_def example_post_def headers_get_def lower_def lower_char_def)
  have size: "request_too_large example_config (example_post\<lparr> req_body := None \<rparr>) = Inr None"
    by (simp add: request_too_large_def example_post_def example_config_def headers_get_def
          lower_def lower_char_def py_int_def strip_def is_space_def digit_val_def)
  have rate: "fst (check_rate_limit 2 60 0 ''127.0.0.1'' fresh_state) = True"
    by (simp add: check_rate_limit_def fresh_state_def)
  show ?thesis
    using ip size rate
    by (simp add: security_middleware_def Let_def split_beta is_ip_allowed_def)
       (simp add: example_config_def example_post_def)
qed

section \<open>Token verification\<close>

lemma verify_jwt_token_returns:
  assumes "\<And>e. jwt_decode token jwt_secret [jwt_algorithm] = Inl e \<Longrightarrow> is_InvalidTokenError e"
  shows "\<exists>r. verify_jwt_token jwt_decode jwt_secret jwt_algorithm token = Inr r"
  using assms by (auto simp: verify_jwt_token_def split: sum.splits)



section \<open>Properties of the fan-out endpoints\<close>

lemma tag_entities_objects:
  "list_all is_object xs \<Longrightarrow>
     tag_entities (JStr n) (JStr l) xs items
       = Inr (items @ map (\<lambda>entity. case entity of JDict e \<Rightarrow> tag (JStr n) (JStr l) e | _ \<Rightarrow> entity) xs)"
proof (induction xs arbitrary: items)
  case Nil
  then show ?case by simp
next
  case (Cons x xs)
  then obtain e where "x = JDict e" by (cases x) auto
  with Cons show ?case by simp
qed

lemma annotated_lookup:
  "map_of (AList.update ''_response_time'' r
             (foldl (\<lambda>d' (k, v). AList.update k v d') d (backend_identity n c))) k
     = (if k = ''_response_time'' then Some r
        else if k = ''_place_location''
          then Some (JStr (case bc_location c of Some l \<Rightarrow> l | None \<Rightarrow> ''Unknown''))
        else if k = ''_backend_url'' then Some (JStr (bc_url c))
        else if k = ''_backend_name'' then Some (JStr n)
        else map_of d k)"
  by (simp add: backend_identity_def update_conv')

lemma error_result_lookup:
  "error_result m code (backend_identity n c) = JDict d \<Longrightarrow>
     dict_get d ''success'' JNull = JBool False"
  by (auto simp: error_result_def dict_get_def)

lemma call_backend_fails:
  assumes "map_of backends n = Some c" and "fails outcome"
  shows "\<exists>d. valid_result (call_backend backends n outcome) = Some d
            \<and> dict_get d ''success'' JNull = JBool False"
  using assms
  by (auto simp: call_backend_def fails_def error_result_def dict_get_def Let_def
           split: http_outcome.splits sum.splits)

lemma call_backend_succeeds:
  assumes "map_of backends n = Some c" and "succeeds key outcome" and "key \<notin> set identity_keys"
  shows "\<exists>d. valid_result (call_backend backends n outcome) = Some d
            \<and> truthy (dict_get d ''success'' JNull)
            \<and> map_of d key = Some (JList (reported key outcome))
            \<and> list_all is_object (reported key outcome)
            \<and> dict_get d ''_backend_name'' (JStr ''Unknown'') = JStr n
            \<and> dict_get d ''_place_location'' (JStr ''Unknown'') = JStr (location_of backends n)"
  using assms
  by (auto simp: call_backend_def succeeds_def reported_def location_of_def Let_def dict_get_def
                 annotated_lookup identity_keys_def
           split: http_outcome.splits sum.splits json.splits option.splits)


lemma succeeds_not_fails: "succeeds key outcome \<Longrightarrow> \<not> fails outcome"
  by (auto simp: succeeds_def fails_def split: http_outcome.splits sum.splits json.splits)

lemma merge_results_names:
  assumes "\<forall>n \<in> set ns. map_of backends n \<noteq> None
                 \<and> (succeeds key (outcome_of n) \<or> fails (outcome_of n))"
    and "key \<notin> set identity_keys"
  shows "\<exists>m. merge_results key
               (List.map_filter valid_result
                  (map (\<lambda>n. call_backend backends n (outcome_of n)) ns)) acc = Inr m
           \<and> all_items m = all_items acc
               @ concat (map (\<lambda>n. map (tag_from backends n) (reported key (outcome_of n)))
                             (filter (\<lambda>n. succeeds key (outcome_of n)) ns))
           \<and> backend_sources m = backend_sources acc
               @ map JStr (filter (\<lambda>n. succeeds key (outcome_of n)) ns)"
  using assms(1)
proof (induction ns arbitrary: acc)
  case Nil
  then show ?case by (simp add: map_filter_simps)
next
  case (Cons n ns)
  obtain c where c: "map_of backends n = Some c" using Cons.prems by auto
  have rest: "\<forall>n \<in> set ns. map_of backends n \<noteq> None
                 \<and> (succeeds key (outcome_of n) \<or> fails (outcome_of n))"
    using Cons.prems by simp
  show ?case
  proof (cases "succeeds key (outcome_of n)")
    case True
    obtain d where d: "valid_result (call_backend backends n (outcome_of n)) = Some d"
        "truthy (dict_get d ''success'' JNull)"
        "map_of d key = Some (JList (reported key (outcome_of n)))"
        "list_all is_object (reported key (outcome_of n))"
        "dict_get d ''_backend_name'' (JStr ''Unknown'') = JStr n"
        "dict_get d ''_place_location'' (JStr ''Unknown'') = JStr (location_of backends n)"
      using call_backend_succeeds [OF c True assms(2)] by blast
    let ?acc = "note_source (JStr n) (JStr (location_of backends n)) acc"
    let ?items = "all_items acc @ map (tag_from backends n) (reported key (outcome_of n))"
    have tg: "tag_entities (JStr n) (JStr (location_of backends n)) (reported key (outcome_of n))
                (all_items ?acc) = Inr ?items"
      using tag_entities_objects [OF d(4)]
      by (simp add: note_source_def tag_from_def [abs_def])
    have it: "py_iter (dict_get d key JNull) = Inr (reported key (outcome_of n))"
      using d(3) by (simp add: dict_get_def)
    obtain m where m: "merge_results key
               (List.map_filter valid_result
                  (map (\<lambda>n. call_backend backends n (outcome_of n)) ns))
               (?acc\<lparr> all_items := ?items \<rparr>) = Inr m"
        "all_items m = all_items (?acc\<lparr> all_items := ?items \<rparr>)
               @ concat (map (\<lambda>n. map (tag_from backends n) (reported key (outcome_of n)))
                             (filter (\<lambda>n. succeeds key (outcome_of n)) ns))"
        "backend_sources m = backend_sources (?acc\<lparr> all_items := ?items \<rparr>)
               @ map JStr (filter (\<lambda>n. succeeds key (outcome_of n)) ns)"
      using Cons.IH [OF rest] by blast
    have "merge_results key
               (List.map_filter valid_result
                  (map (\<lambda>n. call_backend backends n (outcome_of n)) (n # ns))) acc = Inr m"
      using d(1,2,3,5,6) it tg m(1) by (simp add: map_filter_simps)
    then show ?thesis using m(2,3) True by (simp add: note_source_def)
  next
    case False
    then have f: "fails (outcome_of n)" using Cons.prems by auto
    obtain d where d: "valid_result (call_backend backends n (outcome_of n)) = Some d"
        "dict_get d ''success'' JNull = JBool False"
      using call_backend_fails [OF c f] by blast
    obtain m where m: "merge_results key
               (List.map_filter valid_result
                  (map (\<lambda>n. call_backend backends n (outcome_of n)) ns)) acc = Inr m"
        "all_items m = all_items acc
               @ concat (map (\<lambda>n. map (tag_from backends n) (reported key (outcome_of n)))
                             (filter (\<lambda>n. succeeds key (outcome_of n)) ns))"
        "backend_sources m = backend_sources acc
               @ map JStr (filter (\<lambda>n. succeeds key (outcome_of n)) ns)"
      using Cons.IH [OF rest] by blast
    have "merge_results key
               (List.map_filter valid_result
                  (map (\<lambda>n. call_backend backends n (outcome_of n)) (n # ns))) acc = Inr m"
      using d m(1) by (simp add: map_filter_simps)
    then show ?thesis using m(2,3) False by simp
  qed
qed

lemma registered_names: "n \<in> set (map fst backends) \<Longrightarrow> map_of backends n \<noteq> None"
  by (induction backends) auto


lemma merge_results_all:
  assumes "\<forall>n \<in> set (map fst backends). succeeds key (outcome_of n) \<or> fails (outcome_of n)"
    and "key \<notin> set identity_keys"
  shows "\<exists>m. merge_results key (call_all_backends backends outcome_of) no_items = Inr m
           \<and> all_items m = entities_of key backends outcome_of
           \<and> backend_sources m = map JStr (succeeding key backends outcome_of)"
proof -
  have reg: "\<forall>n \<in> set (map fst backends). map_of backends n \<noteq> None
                 \<and> (succeeds key (outcome_of n) \<or> fails (outcome_of n))"
  proof
    fix n assume n: "n \<in> set (map fst backends)"
    then have "map_of backends n \<noteq> None" by (rule registered_names)
    moreover have "succeeds key (outcome_of n) \<or> fails (outcome_of n)" using assms(1) n by blast
    ultimately show "map_of backends n \<noteq> None
                 \<and> (succeeds key (outcome_of n) \<or> fails (outcome_of n))" by simp
  qed
  obtain m where m: "merge_results key
               (List.map_filter valid_result
                  (map (\<lambda>n. call_backend backends n (outcome_of n)) (map fst backends))) no_items = Inr m"
     "all_items m = all_items no_items
               @ concat (map (\<lambda>n. map (tag_from backends n) (reported key (outcome_of n)))
                             (filter (\<lambda>n. succeeds key (outcome_of n)) (map fst backends)))"
     "backend_sources m = backend_sources no_items
               @ map JStr (filter (\<lambda>n. succeeds key (outcome_of n)) (map fst backends))"
    using merge_results_names [OF reg assms(2), of no_items] by blast
  have 1: "merge_results key (call_all_backends backends outcome_of) no_items = Inr m"
    using m(1) unfolding call_all_backends_def .
  have 2: "all_items m = entities_of key backends outcome_of"
    using m(2) unfolding entities_of_def succeeding_def no_items_def by simp
  have 3: "backend_sources m = map JStr (succeeding key backends outcome_of)"
    using m(3) unfolding succeeding_def no_items_def by simp
  show ?thesis using 1 2 3 by blast
qed


lemma count_succeeding:
  assumes "\<forall>n \<in> set (map fst backends). succeeds key (outcome_of n) \<or> fails (outcome_of n)"
  shows "length (succeeding key backends outcome_of)
           = length backends - length (failing backends outcome_of)"
proof -
  have eq: "\<And>n. n \<in> set (map fst backends) \<Longrightarrow>
               fails (outcome_of n) = (\<not> succeeds key (outcome_of n))"
    using assms succeeds_not_fails by blast
  have "filter (\<lambda>n. fails (outcome_of n)) (map fst backends)
          = filter (\<lambda>n. \<not> succeeds key (outcome_of n)) (map fst backends)"
    by (rule filter_cong [OF refl]) (rule eq)
  then have "length (succeeding key backends outcome_of) + length (failing backends outcome_of)
               = length (map fst backends)"
    unfolding succeeding_def failing_def
    using sum_length_filter_compl [of "\<lambda>n. succeeds key (outcome_of n)" "map fst backends"]
    by simp
  then show ?thesis by simp
qed

text \<open>
  Claim C1. When every registered target either succeeds or fails in one of the
  classified ways, \<open>/devices/all\<close> and \<open>/attendance/all\<close> return a dictionary (an HTTP
  success) with \<open>success\<close> true, whose collection is the concatenation, in registry
  order, of the tagged entities of the succeeding targets, and whose \<open>backend_sources\<close>
  are the names of the succeeding targets: \<open>k - m\<close> names for \<open>k\<close> targets of which
  \<open>m\<close> fail.
\<close>

theorem fan_out_merges_exactly_succeeding_targets:
  assumes "\<forall>n \<in> set (map fst backends). succeeds ''devices'' (devices_of n) \<or> fails (devices_of n)"
    and "\<forall>n \<in> set (map fst backends). succeeds ''data'' (attendance_of n) \<or> fails (attendance_of n)"
  shows "response_field (get_all_devices_unified backends devices_of) ''success'' = Some (JBool True)
       \<and> response_field (get_all_devices_unified backends devices_of) ''devices''
           = Some (JList (entities_of ''devices'' backends devices_of))
       \<and> response_field (get_all_devices_unified backends devices_of) ''backend_sources''
           = Some (JList (map JStr (succeeding ''devices'' backends devices_of)))
       \<and> length (succeeding ''devices'' backends devices_of)
           = length backends - length (failing backends devices_of)
       \<and> response_field (get_all_attendance_unified backends attendance_of) ''success'' = Some (JBool True)
       \<and> response_field (get_all_attendance_unified backends attendance_of) ''data''
           = Some (JList (entities_of ''data'' backends attendance_of))
       \<and> response_field (get_all_attendance_unified backends attendance_of) ''backend_sources''
           = Some (JList (map JStr (succeeding ''data'' backends attendance_of)))
       \<and> length (succeeding ''data'' backends attendance_of)
           = length backends - length (failing backends attendance_of)"
proof -
  have k: "''devices'' \<notin> set identity_keys" "''data'' \<notin> set identity_keys"
    by (simp_all add: identity_keys_def)
  obtain m where m: "merge_results ''devices'' (call_all_backends backends devices_of) no_items = Inr m"
      "all_items m = entities_of ''devices'' backends devices_of"
      "backend_sources m = map JStr (succeeding ''devices'' backends devices_of)"
    using merge_results_all [OF assms(1) k(1)] by blast
  obtain m' where m': "merge_results ''data'' (call_all_backends backends attendance_of) no_items = Inr m'"
      "all_items m' = entities_of ''data'' backends attendance_of"
      "backend_sources m' = map JStr (succeeding ''data'' backends attendance_of)"
    using merge_results_all [OF assms(2) k(2)] by blast
  have d: "get_all_devices_unified backends devices_of
             = Inr (unified_response ''devices'' ''total_devices'' '' devices from '' m)"
    using m(1) by (simp add: get_all_devices_unified_def)
  have a: "get_all_attendance_unified backends attendance_of
             = Inr (unified_response ''data'' ''total_records'' '' records from '' m')"
    using m'(1) by (simp add: get_all_attendance_unified_def)
  have d1: "response_field (get_all_devices_unified backends devices_of) ''success'' = Some (JBool True)"
    unfolding d by (simp add: response_field_def unified_response_def)
  have d2: "response_field (get_all_devices_unified backends devices_of) ''devices''
           = Some (JList (entities_of ''devices'' backends devices_of))"
    unfolding d using m(2) by (simp add: response_field_def unified_response_def)
  have d3: "response_field (get_all_devices_unified backends devices_of) ''backend_sources''
           = Some (JList (map JStr (succeeding ''devices'' backends devices_of)))"
    unfolding d using m(3) by (simp add: response_field_def unified_response_def)
  have a1: "response_field (get_all_attendance_unified backends attendance_of) ''success'' = Some (JBool True)"
    unfolding a by (simp add: response_field_def unified_response_def)
  have a2: "response_field (get_all_attendance_unified backends attendance_of) ''data''
           = Some (JList (entities_of ''data'' backends attendance_of))"
    unfolding a using m'(2) by (simp add: response_field_def unified_response_def)
  have a3: "response_field (get_all_attendance_unified backends attendance_of) ''backend_sources''
           = Some (JList (map JStr (succeeding ''data'' backends attendance_of)))"
    unfolding a using m'(3) by (simp add: response_field_def unified_response_def)
  show ?thesis
    using d1 d2 d3 a1 a2 a3 count_succeeding [OF assms(1)] count_succeeding [OF assms(2)]
    by blast
qed

lemma example_devices_succeeding: "succeeding ''devices'' example_backends example_devices = [''A'', ''C'']"
  by (simp add: succeeding_def example_backends_def example_devices_def succeeds_def dict_get_def)

lemma example_devices_failing: "failing example_backends example_devices = [''B'']"
  by (simp add: failing_def example_backends_def example_devices_def fails_def)

lemma example_attendance_succeeding: "succeeding ''data'' example_backends example_attendance = [''B'']"
  by (simp add: succeeding_def example_backends_def example_attendance_def succeeds_def dict_get_def)

lemma example_devices_entities: "entities_of ''devices'' example_backends example_devices
   = [JDict [(''device_name'', JStr ''door''), (''backend_name'', JStr ''A''),
             (''place_location'', JStr ''Back Office'')],
      JDict [(''device_name'', JStr ''gate''), (''backend_name'', JStr ''C''),
             (''place_location'', JStr ''Unknown'')],
      JDict [(''device_name'', JStr ''dock''), (''backend_name'', JStr ''C''),
             (''place_location'', JStr ''Unknown'')]]"
  by (simp add: entities_of_def example_devices_succeeding)
     (simp add: example_backends_def example_devices_def reported_def tag_from_def tag_def location_of_def)

theorem fan_out_merges_exactly_succeeding_targets_witness:
  "response_field (get_all_devices_unified example_backends example_devices) ''success''
     = Some (JBool True)
   \<and> response_field (get_all_devices_unified example_backends example_devices) ''devices''
     = Some (JList
         [JDict [(''device_name'', JStr ''door''), (''backend_name'', JStr ''A''),
                 (''place_location'', JStr ''Back Office'')],
          JDict [(''device_name'', JStr ''gate''), (''backend_name'', JStr ''C''),
                 (''place_location'', JStr ''Unknown'')],
          JDict [(''device_name'', JStr ''dock''), (''backend_name'', JStr ''C''),
                 (''place_location'', JStr ''Unknown'')]])
   \<and> response_field (get_all_devices_unified example_backends example_devices) ''backend_sources''
     = Some (JList [JStr ''A'', JStr ''C''])
   \<and> response_field (get_all_attendance_unified example_backends example_attendance) ''backend_sources''
     = Some (JList [JStr ''B''])"
proof -
  have h1: "\<forall>n \<in> set (map fst example_backends).
              succeeds ''devices'' (example_devices n) \<or> fails (example_devices n)"
    by (simp add: example_backends_def example_devices_def succeeds_def fails_def dict_get_def)
  have h2: "\<forall>n \<in> set (map fst example_backends).
              succeeds ''data'' (example_attendance n) \<or> fails (example_attendance n)"
    by (simp add: example_backends_def example_attendance_def succeeds_def fails_def dict_get_def)
  show ?thesis
    using fan_out_merges_exactly_succeeding_targets [OF h1 h2]
    by (simp add: example_devices_succeeding example_attendance_succeeding example_devices_entities)
qed

section \<open>Identity of results and entities\<close>

lemma call_backend_identity:
  assumes "map_of backends n = Some c" and "\<not> non_object_body outcome"
  shows "\<exists>r. call_backend backends n outcome = Inr r \<and> carries_identity n c r"
  using assms
  by (auto simp: call_backend_def non_object_body_def carries_identity_def error_result_def
                 backend_identity_def Let_def update_conv'
           split: http_outcome.splits sum.splits json.splits)

lemma call_backend_non_object:
  assumes "map_of backends n = Some c" and "non_object_body outcome"
  shows "\<exists>data p. outcome = Response 200 (Inr data) p \<and> call_backend backends n outcome = Inr data
           \<and> \<not> carries_identity n c data"
  using assms
  by (auto simp: call_backend_def non_object_body_def carries_identity_def Let_def
           split: http_outcome.splits sum.splits json.splits)

lemma valid_result_identity:
  assumes "map_of backends n = Some c"
    and "valid_result (call_backend backends n outcome) = Some d"
  shows "dict_get d ''_backend_name'' (JStr ''Unknown'') = JStr n
       \<and> dict_get d ''_place_location'' (JStr ''Unknown'') = JStr (location_of backends n)"
proof (cases "non_object_body outcome")
  case True
  then obtain data p where "outcome = Response 200 (Inr data) p"
      "call_backend backends n outcome = Inr data" "\<not> is_object data"
    using call_backend_non_object [OF assms(1) True]
    by (auto simp: non_object_body_def split: http_outcome.splits sum.splits)
  then show ?thesis using assms(2) by (cases data) auto
next
  case False
  then obtain r where r: "call_backend backends n outcome = Inr r" "carries_identity n c r"
    using call_backend_identity [OF assms(1)] by blast
  then have "r = JDict d" using assms(2) by (cases r) auto
  then show ?thesis using r(2) assms(1)
    by (simp add: carries_identity_def dict_get_def location_of_def)
qed

lemma in_map_filter:
  "y \<in> set (List.map_filter f xs) \<longleftrightarrow> (\<exists>x \<in> set xs. f x = Some y)"
  by (induction xs) (auto split: option.splits)

lemma call_all_backends_identified:
  "d \<in> set (call_all_backends backends outcome_of) \<Longrightarrow> identified backends d"
proof -
  assume "d \<in> set (call_all_backends backends outcome_of)"
  then obtain n where n: "n \<in> set (map fst backends)"
      "valid_result (call_backend backends n (outcome_of n)) = Some d"
    unfolding call_all_backends_def in_map_filter by auto
  then obtain c where "map_of backends n = Some c"
    using registered_names [OF n(1)] by auto
  from valid_result_identity [OF this n(2)] n(1) show ?thesis
    unfolding identified_def by blast
qed

lemma tag_carries_tags:
  "n \<in> set (map fst backends) \<Longrightarrow>
     carries_tags backends (tag (JStr n) (JStr (location_of backends n)) e)"
  by (simp add: carries_tags_def tag_def update_conv')

lemma tag_entities_tagged:
  assumes "tag_entities (JStr n) (JStr (location_of backends n)) xs items = Inr items'"
    and "n \<in> set (map fst backends)" and "list_all (carries_tags backends) items"
  shows "list_all (carries_tags backends) items'"
  using assms
proof (induction xs arbitrary: items)
  case Nil
  then show ?case by simp
next
  case (Cons x xs)
  then obtain e where e: "x = JDict e" by (cases x) auto
  show ?case
    using Cons.IH [of "items @ [tag (JStr n) (JStr (location_of backends n)) e]"]
          Cons.prems e tag_carries_tags [OF Cons.prems(2)]
    by simp
qed

lemma merge_results_tagged:
  assumes "merge_results key results acc = Inr m"
    and "\<forall>d \<in> set results. identified backends d"
    and "list_all (carries_tags backends) (all_items acc)"
  shows "list_all (carries_tags backends) (all_items m)"
  using assms
proof (induction results arbitrary: acc)
  case Nil
  then show ?case by simp
next
  case (Cons d results)
  obtain n where n: "n \<in> set (map fst backends)"
      "dict_get d ''_backend_name'' (JStr ''Unknown'') = JStr n"
      "dict_get d ''_place_location'' (JStr ''Unknown'') = JStr (location_of backends n)"
    using Cons.prems(2) unfolding identified_def by auto
  have rest: "\<forall>d \<in> set results. identified backends d" using Cons.prems(2) by simp
  show ?case
  proof (cases "truthy (dict_get d ''success'' JNull) \<and> map_of d key \<noteq> None")
    case False
    then have "merge_results key results acc = Inr m" using Cons.prems(1) by auto
    from Cons.IH [OF this rest Cons.prems(3)] show ?thesis .
  next
    case True
    let ?acc = "note_source (JStr n) (JStr (location_of backends n)) acc"
    from True Cons.prems(1) n(2,3) obtain entities items where
        s: "py_iter (dict_get d key JNull) = Inr entities"
           "tag_entities (JStr n) (JStr (location_of backends n)) entities (all_items ?acc) = Inr items"
           "merge_results key results (?acc\<lparr> all_items := items \<rparr>) = Inr m"
      by (auto simp: Let_def split: sum.splits)
    have "list_all (carries_tags backends) (all_items ?acc)"
      using Cons.prems(3) by (simp add: note_source_def)
    from tag_entities_tagged [OF s(2) n(1) this]
    have "list_all (carries_tags backends) (all_items (?acc\<lparr> all_items := items \<rparr>))" by simp
    from Cons.IH [OF s(3) rest this] show ?thesis .
  qed
qed


lemma add_users_tagged:
  assumes "add_users cs (JStr n) (JStr (location_of backends n)) xs (users, user_set)
             = Inr (users', user_set')"
    and "n \<in> set (map fst backends)" and "list_all (carries_tags backends) users"
  shows "list_all (carries_tags backends) users'"
  using assms
proof (induction xs arbitrary: users user_set)
  case Nil
  then show ?case by simp
next
  case (Cons x xs)
  then obtain u where u: "x = JDict u" by (cases x) auto
  show ?case
  proof (cases "user_key cs u \<in> user_set")
    case True
    then show ?thesis using Cons.IH [of users user_set] Cons.prems u by simp
  next
    case False
    then show ?thesis
      using Cons.IH [of "users @ [tag (JStr n) (JStr (location_of backends n)) u]"
                        "insert (user_key cs u) user_set"]
            Cons.prems u tag_carries_tags [OF Cons.prems(2)]
      by simp
  qed
qed

lemma merge_users_tagged:
  assumes "merge_users cs results (acc, user_set) = Inr (m, user_set')"
    and "\<forall>d \<in> set results. identified backends d"
    and "list_all (carries_tags backends) (all_items acc)"
  shows "list_all (carries_tags backends) (all_items m)"
  using assms
proof (induction results arbitrary: acc user_set)
  case Nil
  then show ?case by simp
next
  case (Cons d results)
  obtain n where n: "n \<in> set (map fst backends)"
      "dict_get d ''_backend_name'' (JStr ''Unknown'') = JStr n"
      "dict_get d ''_place_location'' (JStr ''Unknown'') = JStr (location_of backends n)"
    using Cons.prems(2) unfolding identified_def by auto
  have rest: "\<forall>d \<in> set results. identified backends d" using Cons.prems(2) by simp
  show ?case
  proof (cases "truthy (dict_get d ''success'' JNull) \<and> map_of d ''users'' \<noteq> None")
    case False
    then have "merge_users cs results (acc, user_set) = Inr (m, user_set')"
      using Cons.prems(1) by auto
    from Cons.IH [OF this rest Cons.prems(3)] show ?thesis .
  next
    case True
    let ?acc = "note_source (JStr n) (JStr (location_of backends n)) acc"
    from True Cons.prems(1) n(2,3) obtain entities users us where
        s: "py_iter (dict_get d ''users'' JNull) = Inr entities"
           "add_users cs (JStr n) (JStr (location_of backends n)) entities (all_items ?acc, user_set)
              = Inr (users, us)"
           "merge_users cs results (?acc\<lparr> all_items := users \<rparr>, us) = Inr (m, user_set')"
      by (auto simp: Let_def split: sum.splits prod.splits)
    have "list_all (carries_tags backends) (all_items ?acc)"
      using Cons.prems(3) by (simp add: note_source_def)
    from add_users_tagged [OF s(2) n(1) this]
    have "list_all (carries_tags backends) (all_items (?acc\<lparr> all_items := users \<rparr>))" by simp
    from Cons.IH [OF s(3) rest this] show ?thesis .
  qed
qed

lemma devices_tagged:
  "list_all (carries_tags backends)
     (collection (get_all_devices_unified backends outcome_of) ''devices'')"
proof (cases "merge_results ''devices'' (call_all_backends backends outcome_of) no_items")
  case (Inl e)
  then show ?thesis
    by (simp add: get_all_devices_unified_def collection_def response_field_def)
next
  case (Inr m)
  have "list_all (carries_tags backends) (all_items m)"
    using merge_results_tagged [OF Inr] call_all_backends_identified
    by (simp add: no_items_def)
  then show ?thesis using Inr
    by (simp add: get_all_devices_unified_def collection_def response_field_def unified_response_def)
qed

lemma attendance_tagged:
  "list_all (carries_tags backends)
     (collection (get_all_attendance_unified backends outcome_of) ''data'')"
proof (cases "merge_results ''data'' (call_all_backends backends outcome_of) no_items")
  case (Inl e)
  then show ?thesis
    by (simp add: get_all_attendance_unified_def collection_def response_field_def)
next
  case (Inr m)
  have "list_all (carries_tags backends) (all_items m)"
    using merge_results_tagged [OF Inr] call_all_backends_identified
    by (simp add: no_items_def)
  then show ?thesis using Inr
    by (simp add: get_all_attendance_unified_def collection_def response_field_def unified_response_def)
qed

lemma users_tagged:
  "list_all (carries_tags backends)
     (collection (get_all_users_unified cs backends outcome_of) ''users'')"
proof (cases "merge_users cs (call_all_backends backends outcome_of) (no_items, {})")
  case (Inl e)
  then show ?thesis
    by (simp add: get_all_users_unified_def collection_def response_field_def)
next
  case (Inr p)
  obtain m us where p: "p = (m, us)" by (cases p)
  have "list_all (carries_tags backends) (all_items m)"
    using merge_users_tagged [OF Inr [unfolded p]] call_all_backends_identified
    by (simp add: no_items_def)
  then show ?thesis using Inr p
    by (simp add: get_all_users_unified_def collection_def response_field_def)
qed

lemma merge_summaries_tagged:
  assumes "\<forall>d \<in> set results. identified backends d"
    and "list_all (carries_tags backends) (all_items acc)"
  shows "list_all (carries_tags backends) (all_items (merge_summaries results acc))"
  using assms
proof (induction results arbitrary: acc)
  case Nil
  then show ?case by simp
next
  case (Cons d results)
  obtain n where n: "n \<in> set (map fst backends)"
      "dict_get d ''_backend_name'' (JStr ''Unknown'') = JStr n"
      "dict_get d ''_place_location'' (JStr ''Unknown'') = JStr (location_of backends n)"
    using Cons.prems(1) unfolding identified_def by auto
  have rest: "\<forall>d \<in> set results. identified backends d" using Cons.prems(1) by simp
  show ?case
  proof (cases "truthy (dict_get d ''success'' JNull)")
    case False
    then show ?thesis using Cons.IH [OF rest Cons.prems(2)] by simp
  next
    case True
    let ?acc = "note_source (JStr n) (JStr (location_of backends n)) acc"
    let ?acc' = "?acc\<lparr> all_items := all_items ?acc @ [tag (JStr n) (JStr (location_of backends n)) d] \<rparr>"
    have "list_all (carries_tags backends) (all_items ?acc')"
      using Cons.prems(2) tag_carries_tags [OF n(1)] by (simp add: note_source_def)
    from Cons.IH [OF rest this] show ?thesis using True n(2,3) by (simp add: Let_def)
  qed
qed

lemma summaries_tagged:
  "list_all (carries_tags backends)
     (collection (get_all_summary_unified backends outcome_of) ''summaries'')"
proof -
  have "list_all (carries_tags backends)
          (all_items (merge_summaries (call_all_backends backends outcome_of) no_items))"
    using merge_summaries_tagged [of "call_all_backends backends outcome_of" backends no_items]
          call_all_backends_identified
    by (simp add: no_items_def)
  then show ?thesis
    by (simp add: get_all_summary_unified_def collection_def response_field_def Let_def)
qed

text \<open>
  Claim C7, as amended. Every entity in the collection that \<open>/devices/all\<close>,
  \<open>/attendance/all\<close>, \<open>/users/all\<close> and \<open>/summary/all\<close> return carries the \<open>backend_name\<close> and
  \<open>place_location\<close> of a registered backend; and the result of \<open>call_backend\<close> for a
  registered backend carries the name, URL and location of that backend for every
  outcome except a 200 response whose JSON body is not an object.
\<close>

theorem entities_tagged_and_classifications_identified:
  assumes "map_of backends n = Some c" and "\<not> non_object_body outcome"
  shows "list_all (carries_tags backends)
           (collection (get_all_devices_unified backends devices_of) ''devices'')
       \<and> list_all (carries_tags backends)
           (collection (get_all_attendance_unified backends attendance_of) ''data'')
       \<and> list_all (carries_tags backends)
           (collection (get_all_users_unified cs backends users_of) ''users'')
       \<and> list_all (carries_tags backends)
           (collection (get_all_summary_unified backends summaries_of) ''summaries'')
       \<and> (case call_backend backends n outcome of
             Inr r \<Rightarrow> carries_identity n c r | Inl e \<Rightarrow> False)"
proof -
  obtain r where "call_backend backends n outcome = Inr r" "carries_identity n c r"
    using call_backend_identity [OF assms] by blast
  then show ?thesis
    using devices_tagged attendance_tagged users_tagged summaries_tagged by simp
qed

theorem entities_tagged_and_classifications_identified_witness:
  "list_all (carries_tags example_backends)
     (collection (get_all_devices_unified example_backends example_devices) ''devices'')
   \<and> (case call_backend example_backends ''B'' TimeoutError of
         Inr r \<Rightarrow> carries_identity ''B'' \<lparr> bc_url = ''http://b:8000'', bc_location = Some ''Show Room'' \<rparr> r
       | Inl e \<Rightarrow> False)"
proof -
  have h1: "map_of example_backends ''B''
              = Some \<lparr> bc_url = ''http://b:8000'', bc_location = Some ''Show Room'' \<rparr>"
    by (simp add: example_backends_def)
  have h2: "\<not> non_object_body TimeoutError" by (simp add: non_object_body_def)
  show ?thesis
    using entities_tagged_and_classifications_identified
            [OF h1 h2, of example_devices example_attendance "\<lambda>v. []" example_users]
    by blast
qed

text \<open>
  The claim as stated fails for the success outcome: a 200 response whose body is a JSON
  array is returned as it is, with no identity attached.
\<close>

theorem untagged_success_counterexample:
  "call_backend example_backends ''A'' (Response 200 (Inr (JList [JInt 1])) None)
     = Inr (JList [JInt 1])
   \<and> \<not> carries_identity ''A'' \<lparr> bc_url = ''http://a:8000'', bc_location = Some ''Back Office'' \<rparr>
         (JList [JInt 1])"
  by (simp add: call_backend_def example_backends_def carries_identity_def)


section \<open>Deduplication of users\<close>

text \<open>No two entries of the user listing have the same deduplication key.\<close>

lemma key_of_tag: "key_of cs (tag bn pl u) = user_key cs u"
  by (simp add: key_of_def tag_def user_key_def dict_get_def update_conv')

lemma add_users_keys:
  assumes "add_users cs bn pl xs (users, user_set) = Inr (users', user_set')"
    and "user_set = set (map (key_of cs) users)" and "distinct (map (key_of cs) users)"
  shows "user_set' = set (map (key_of cs) users') \<and> distinct (map (key_of cs) users')"
  using assms
proof (induction xs arbitrary: users user_set)
  case Nil
  then show ?case by auto
next
  case (Cons x xs)
  then obtain u where u: "x = JDict u" by (cases x) auto
  show ?case
  proof (cases "user_key cs u \<in> user_set")
    case True
    then show ?thesis using Cons.IH [of users user_set] Cons.prems u by simp
  next
    case False
    have a: "add_users cs bn pl xs (users @ [tag bn pl u], insert (user_key cs u) user_set)
               = Inr (users', user_set')"
      using Cons.prems(1) u False by simp
    have b: "insert (user_key cs u) user_set = set (map (key_of cs) (users @ [tag bn pl u]))"
      using Cons.prems(2) by (simp add: key_of_tag)
    have c: "distinct (map (key_of cs) (users @ [tag bn pl u]))"
      using Cons.prems(2,3) False by (simp add: key_of_tag)
    from Cons.IH [OF a b c] show ?thesis .
  qed
qed

lemma merge_users_keys:
  assumes "merge_users cs results (acc, user_set) = Inr (m, user_set')"
    and "user_set = set (map (key_of cs) (all_items acc))"
    and "distinct (map (key_of cs) (all_items acc))"
  shows "distinct (map (key_of cs) (all_items m))"
  using assms
proof (induction results arbitrary: acc user_set)
  case Nil
  then show ?case by simp
next
  case (Cons d results)
  show ?case
  proof (cases "truthy (dict_get d ''success'' JNull) \<and> map_of d ''users'' \<noteq> None")
    case False
    then have "merge_users cs results (acc, user_set) = Inr (m, user_set')"
      using Cons.prems(1) by auto
    from Cons.IH [OF this Cons.prems(2,3)] show ?thesis .
  next
    case True
    let ?bn = "dict_get d ''_backend_name'' (JStr ''Unknown'')"
    let ?pl = "dict_get d ''_place_location'' (JStr ''Unknown'')"
    let ?acc = "note_source ?bn ?pl acc"
    from True Cons.prems(1) obtain entities users us where
        s: "py_iter (dict_get d ''users'' JNull) = Inr entities"
           "add_users cs ?bn ?pl entities (all_items ?acc, user_set) = Inr (users, us)"
           "merge_users cs results (?acc\<lparr> all_items := users \<rparr>, us) = Inr (m, user_set')"
      by (auto simp: Let_def split: sum.splits prod.splits)
    have i: "user_set = set (map (key_of cs) (all_items ?acc))"
            "distinct (map (key_of cs) (all_items ?acc))"
      using Cons.prems(2,3) by (simp_all add: note_source_def)
    from add_users_keys [OF s(2) i]
    have "us = set (map (key_of cs) (all_items (?acc\<lparr> all_items := users \<rparr>)))"
         "distinct (map (key_of cs) (all_items (?acc\<lparr> all_items := users \<rparr>)))"
      by simp_all
    from Cons.IH [OF s(3) this] show ?thesis .
  qed
qed

lemma users_one_entry_per_key:
  "distinct (map (key_of cs) (collection (get_all_users_unified cs backends outcome_of) ''users''))"
proof (cases "merge_users cs (call_all_backends backends outcome_of) (no_items, {})")
  case (Inl e)
  then show ?thesis
    by (simp add: get_all_users_unified_def collection_def response_field_def)
next
  case (Inr p)
  obtain m us where p: "p = (m, us)" by (cases p)
  have "distinct (map (key_of cs) (all_items m))"
    using merge_users_keys [OF Inr [unfolded p]] by (simp add: no_items_def)
  then show ?thesis using Inr p
    by (simp add: get_all_users_unified_def collection_def response_field_def)
qed

lemma example_users_results:
  "call_all_backends example_backends example_users =
     [[(''success'', JBool True),
       (''users'', JList [JDict [(''name'', JStr ''a-b''), (''userid'', JStr ''c'')],
                          JDict [(''name'', JStr ''a''), (''userid'', JStr ''b-c'')]]),
       (''_backend_name'', JStr ''A''), (''_backend_url'', JStr ''http://a:8000''),
       (''_place_location'', JStr ''Back Office''), (''_response_time'', JStr ''unknown'')],
      [(''success'', JBool True),
       (''users'', JList [JDict [(''name'', JStr ''a''), (''userid'', JStr ''b-c'')]]),
       (''_backend_name'', JStr ''B''), (''_backend_url'', JStr ''http://b:8000''),
       (''_place_location'', JStr ''Show Room''), (''_response_time'', JStr ''unknown'')],
      [(''success'', JBool False), (''error'', JStr ''Backend C server error''),
       (''error_code'', JStr ''SERVER_ERROR''),
       (''_backend_name'', JStr ''C''), (''_backend_url'', JStr ''http://c:8000''),
       (''_place_location'', JStr ''Unknown'')]]"
  by (simp add: call_all_backends_def example_backends_def example_users_def call_backend_def
        backend_identity_def error_result_def)

text \<open>
  Claim C8, evaluated where the targets A and B both report the user with name \<open>a\<close> and
  userid \<open>b-c\<close>, after A has reported a user with name \<open>a-b\<close> and userid \<open>c\<close>. Both
  users have the key \<open>a-b-c\<close>, so the listing holds the entry of the first user only and
  no entry for the pair that the two targets share.
\<close>

theorem duplicate_pair_has_no_entry:
  "response_field (get_all_users_unified (\<lambda>v. []) example_backends example_users) ''users''
     = Some (JList [JDict [(''name'', JStr ''a-b''), (''userid'', JStr ''c''),
                           (''backend_name'', JStr ''A''),
                           (''place_location'', JStr ''Back Office'')]])"
  by (simp add: get_all_users_unified_def example_users_results dict_get_def note_source_def
        no_items_def user_key_def py_str_def tag_def response_field_def Let_def)

lemma example_namesakes_results:
  "call_all_backends example_backends example_namesakes =
     [[(''success'', JBool True),
       (''users'', JList [JDict [(''name'', JStr ''a-b''), (''userid'', JStr ''c'')],
                          JDict [(''name'', JStr ''a''), (''userid'', JStr ''b-c'')]]),
       (''_backend_name'', JStr ''A''), (''_backend_url'', JStr ''http://a:8000''),
       (''_place_location'', JStr ''Back Office''), (''_response_time'', JStr ''unknown'')],
      [(''success'', JBool False), (''error'', JStr ''Backend B timeout''),
       (''error_code'', JStr ''TIMEOUT''),
       (''_backend_name'', JStr ''B''), (''_backend_url'', JStr ''http://b:8000''),
       (''_place_location'', JStr ''Show Room'')],
      [(''success'', JBool False), (''error'', JStr ''Backend C timeout''),
       (''error_code'', JStr ''TIMEOUT''),
       (''_backend_name'', JStr ''C''), (''_backend_url'', JStr ''http://c:8000''),
       (''_place_location'', JStr ''Unknown'')]]"
  by (simp add: call_all_backends_def example_backends_def example_namesakes_def call_backend_def
        backend_identity_def error_result_def)

text \<open>
  Claim C10. The users with name \<open>a-b\<close>, userid \<open>c\<close> and with name \<open>a\<close>, userid
  \<open>b-c\<close> are different pairs with the same key \<open>a-b-c\<close>; when one target reports both,
  the second, which duplicates nobody, is missing from the listing.
\<close>

theorem user_key_not_injective:
  "user_key container_str [(''name'', JStr ''a-b''), (''userid'', JStr ''c'')] = ''a-b-c''
   \<and> user_key container_str [(''name'', JStr ''a''), (''userid'', JStr ''b-c'')] = ''a-b-c''
   \<and> (JStr ''a-b'', JStr ''c'') \<noteq> (JStr ''a'', JStr ''b-c'')
   \<and> response_field (get_all_users_unified container_str example_backends example_namesakes) ''users''
       = Some (JList [JDict [(''name'', JStr ''a-b''), (''userid'', JStr ''c''),
                             (''backend_name'', JStr ''A''),
                             (''place_location'', JStr ''Back Office'')]])"
  by (simp add: get_all_users_unified_def example_namesakes_results dict_get_def note_source_def
        no_items_def user_key_def py_str_def tag_def response_field_def Let_def)

end
